theory Spec2Isabelle
  imports Complex_Main "HOL-Library.Sublist" "HOL-Library.List_Lexorder" "HOL-Library.Char_ord"
begin

section \<open>Python strings and small library functions\<close>

text \<open>
  Strings are character lists. The helpers below mirror the Python string operations the
  cookie scraper uses: \<^verbatim>\<open>s.split(sep)\<close> for a one-character separator,
  \<^verbatim>\<open>s.split(sep, 1)[0]\<close>, \<^verbatim>\<open>sep.join(parts)\<close>, the slice \<^verbatim>\<open>parts[-n:]\<close>,
  the substring test \<^verbatim>\<open>kw in s\<close>, \<^verbatim>\<open>s.lower()\<close> (on ASCII letters) and the decimal
  rendering of an integer inside an f-string.
\<close>

fun split_on :: "char \<Rightarrow> string \<Rightarrow> string list" where
  "split_on c [] = [[]]"
| "split_on c (x # xs) =
     (if x = c then [] # split_on c xs
      else (case split_on c xs of [] \<Rightarrow> [[x]] | p # ps \<Rightarrow> (x # p) # ps))"

fun split_first :: "char \<Rightarrow> string \<Rightarrow> string" where
  "split_first c [] = []"
| "split_first c (x # xs) = (if x = c then [] else x # split_first c xs)"

fun join_with :: "string \<Rightarrow> string list \<Rightarrow> string" where
  "join_with sep [] = []"
| "join_with sep [p] = p"
| "join_with sep (p # q # ps) = p @ sep @ join_with sep (q # ps)"

definition last_n :: "nat \<Rightarrow> 'a list \<Rightarrow> 'a list" where
  "last_n n xs = drop (length xs - n) xs"

fun is_substring :: "string \<Rightarrow> string \<Rightarrow> bool" where
  "is_substring kw [] = (kw = [])"
| "is_substring kw (x # xs) = (prefix kw (x # xs) \<or> is_substring kw xs)"

definition lower_char :: "char \<Rightarrow> char" where
  "lower_char c =
     (let n = (of_char c :: nat)
      in if 65 \<le> n \<and> n \<le> 90 then char_of (n + 32) else c)"

definition py_lower :: "string \<Rightarrow> string" where
  "py_lower s = map lower_char s"

definition digit_char :: "nat \<Rightarrow> char" where
  "digit_char d = ''0123456789'' ! d"

function show_nat :: "nat \<Rightarrow> string" where
  "show_nat n = (if n < 10 then [digit_char n] else show_nat (n div 10) @ [digit_char (n mod 10)])"
  by pat_completeness auto
termination
  by (relation "measure id") auto

declare show_nat.simps [simp del]

definition show_int :: "int \<Rightarrow> string" where
  "show_int i = (if i < 0 then CHR ''-'' # show_nat (nat (- i)) else show_nat (nat i))"

text \<open>Python's \<^verbatim>\<open>int(x)\<close> on a number truncates towards zero.\<close>

definition py_int :: "rat \<Rightarrow> int" where
  "py_int r = (if 0 \<le> r then \<lfloor>r\<rfloor> else \<lceil>r\<rceil>)"

section \<open>The spider's classifiers (cookie\_spider.py)\<close>

subsection \<open>extract\_base\_domain\<close>

definition second_level_labels :: "string list" where
  "second_level_labels = [''co'', ''com'', ''org'', ''net'', ''edu'', ''gov'']"

definition country_labels :: "string list" where
  "country_labels = [''uk'', ''au'', ''nz'', ''jp'']"

definition extract_base_domain :: "string \<Rightarrow> string" where
  "extract_base_domain domain =
     (if domain = [] then []
      else
        let domain1 = (if CHR '':'' \<in> set domain then split_first CHR '':'' domain else domain);
            parts = split_on CHR ''.'' domain1
        in if length parts > 2
              \<and> parts ! (length parts - 2) \<in> set second_level_labels
              \<and> parts ! (length parts - 1) \<in> set country_labels
           then join_with ''.'' (last_n 3 parts)
           else if length parts \<ge> 2 then join_with ''.'' (last_n 2 parts)
           else domain1)"

text \<open>
  The resolver as section 4.1 of the specification words it: strip the port, split on
  dots, answer the last two labels, or the last three when the last two labels are a
  listed second-level indicator followed by a listed country code; fewer than two labels
  give the (port-free) hostname back.
\<close>

definition strip_port :: "string \<Rightarrow> string" where
  "strip_port h = takeWhile (\<lambda>c. c \<noteq> CHR '':'') h"

definition registered_domain_spec :: "string \<Rightarrow> string" where
  "registered_domain_spec h =
     (let host = strip_port h;
          labels = split_on CHR ''.'' host
      in if length labels < 2 then host
         else if last (butlast labels) \<in> set second_level_labels
                 \<and> last labels \<in> set country_labels
         then join_with ''.'' (last_n 3 labels)
         else join_with ''.'' (last_n 2 labels))"

subsection \<open>identify\_tracking\_purpose\<close>

definition analytics_keywords :: "string list" where
  "analytics_keywords =
     [''analytics'', ''ga'', ''_ga'', ''gtm'', ''pixel'', ''stats'', ''track'', ''visit'']"

definition ad_keywords :: "string list" where
  "ad_keywords =
     [''ad'', ''ads'', ''advert'', ''campaign'', ''promo'', ''promotion'', ''marketing'']"

definition session_keywords :: "string list" where
  "session_keywords = [''session'', ''sid'', ''user'', ''auth'', ''login'', ''account'']"

definition preference_keywords :: "string list" where
  "preference_keywords = [''pref'', ''setting'', ''consent'', ''accept'', ''agree'']"

definition functional_keywords :: "string list" where
  "functional_keywords = [''func'', ''feature'', ''ui'', ''display'', ''layout'', ''theme'']"

definition any_keyword_in :: "string list \<Rightarrow> string \<Rightarrow> bool" where
  "any_keyword_in kws s = list_ex (\<lambda>kw. is_substring kw s) kws"

definition identify_tracking_purpose :: "string \<Rightarrow> string \<Rightarrow> string" where
  "identify_tracking_purpose cookie_name cookie_value =
     (let name_lower = py_lower cookie_name
      in if any_keyword_in analytics_keywords name_lower then ''Analytics''
         else if any_keyword_in ad_keywords name_lower then ''Advertising''
         else if any_keyword_in session_keywords name_lower then ''Session/Authentication''
         else if any_keyword_in preference_keywords name_lower then ''Preferences/Consent''
         else if any_keyword_in functional_keywords name_lower then ''Functional''
         else if name_lower \<in> set [''_fbp'', ''fr''] then ''Facebook Tracking''
         else if name_lower \<in> set [''_gid'', ''_ga'', ''_gat''] then ''Google Analytics''
         else if name_lower \<in> set [''__utma'', ''__utmb'', ''__utmc'', ''__utmz'']
           then ''Google Analytics (Legacy)''
         else if name_lower \<in> set [''_hjid'', ''_hjSessionUser''] then ''Hotjar Analytics''
         else if name_lower \<in> set [''_pin_unauth'', ''_pinterest_sess'']
           then ''Pinterest Tracking''
         else if name_lower \<in> set [''_twitter_sess'', ''ct0''] then ''Twitter Tracking''
         else ''Unknown'')"

subsection \<open>calculate\_cookie\_age\<close>

text \<open>
  The expiry handed to \<^verbatim>\<open>calculate_cookie_age\<close> is \<^verbatim>\<open>None\<close>, a number or a string.
  Numbers are rationals: the arithmetic of the function (one subtraction, divisions by
  constants, comparisons) is taken exactly. \<^verbatim>\<open>float(s)\<close> on a string is the parameter
  \<open>to_float\<close>, with \<open>None\<close> for the strings Python rejects with \<^verbatim>\<open>ValueError\<close>.
  The model covers finite numbers only. Outside it: a not-a-number expiry, for which
  the source ends in the session-cookie record (\<^verbatim>\<open>int(nan)\<close> raises the
  \<^verbatim>\<open>ValueError\<close> that the function catches); an infinite expiry or an integer too
  large for \<^verbatim>\<open>float()\<close>, for which the source raises an \<^verbatim>\<open>OverflowError\<close> that it does
  not catch; and the rounding of doubles. The facts proved below about this function
  are evaluations at small whole numbers of seconds, where doubles are exact. The two
  helpers \<open>plural_unit\<close> and \<open>readable_age\<close> are the f-strings and the chain of
  comparisons of the function's last part.
\<close>

datatype expiry_value = ExpNone | ExpNum rat | ExpStr string

record age_info =
  seconds :: "rat option"
  days :: "rat option"
  readable :: string
  is_session :: bool

definition session_age :: age_info where
  "session_age =
     \<lparr>seconds = None, days = None,
      readable = ''Session cookie (expires when browser closes)'', is_session = True\<rparr>"

text \<open>\<^verbatim>\<open>not expiry_timestamp\<close>: \<^verbatim>\<open>None\<close>, zero and the empty string are falsy.\<close>

fun expiry_falsy :: "expiry_value \<Rightarrow> bool" where
  "expiry_falsy ExpNone = True"
| "expiry_falsy (ExpNum r) = (r = 0)"
| "expiry_falsy (ExpStr s) = (s = [])"

fun expiry_float :: "(string \<Rightarrow> rat option) \<Rightarrow> expiry_value \<Rightarrow> rat option" where
  "expiry_float to_float ExpNone = None"
| "expiry_float to_float (ExpNum r) = Some r"
| "expiry_float to_float (ExpStr s) = to_float s"

definition plural_unit :: "rat \<Rightarrow> string \<Rightarrow> string" where
  "plural_unit x unit = show_int (py_int x) @ '' '' @ unit @ (if x \<noteq> 1 then ''s'' else '''')"

definition readable_age :: "rat \<Rightarrow> string" where
  "readable_age age_seconds =
     (let age_days = age_seconds / 86400
      in if age_days < 1 then
           (let hours = age_seconds / 3600
            in if hours < 1 then plural_unit (age_seconds / 60) ''minute''
               else plural_unit hours ''hour'')
         else if age_days < 30 then plural_unit age_days ''day''
         else if age_days < 365 then plural_unit (age_days / 30) ''month''
         else plural_unit (age_days / 365) ''year'')"

definition calculate_cookie_age ::
  "(string \<Rightarrow> rat option) \<Rightarrow> expiry_value \<Rightarrow> rat \<Rightarrow> age_info" where
  "calculate_cookie_age to_float expiry_timestamp current_time =
     (if expiry_falsy expiry_timestamp then session_age
      else case expiry_float to_float expiry_timestamp of
        None \<Rightarrow> session_age
      | Some expiry \<Rightarrow>
          (let age_seconds = expiry - current_time
           in if age_seconds \<le> 0
              then \<lparr>seconds = Some age_seconds, days = Some (age_seconds / 86400),
                    readable = ''Expired'', is_session = False\<rparr>
              else \<lparr>seconds = Some age_seconds, days = Some (age_seconds / 86400),
                    readable = readable_age age_seconds, is_session = False\<rparr>))"


section \<open>The snapshot data model (cookie\_utils.py)\<close>

text \<open>
  A snapshot is the JSON object of one page visit and a cookie one entry of its
  \<^verbatim>\<open>cookies\<close> list. Both are Python dictionaries read with \<^verbatim>\<open>d.get(key, default)\<close>, so
  every key is optional: \<open>None\<close> is the absent key. The fields carry the type the
  collector writes (strings, booleans, lists). The two spellings of the flags that the
  code reads (\<^verbatim>\<open>httponly\<close> and \<^verbatim>\<open>httpOnly\<close>, \<^verbatim>\<open>samesite\<close> and \<^verbatim>\<open>sameSite\<close>) are two
  different keys.

  The \<^verbatim>\<open>age\<close> dictionary of a cookie is tested for emptiness and read with defaults, and
  the collector stores \<^verbatim>\<open>null\<close> in it, so there each key is absent, \<^verbatim>\<open>null\<close> or a value.
\<close>

datatype 'a field = Absent | Null | Val 'a

record age_dict =
  ad_seconds :: "rat field"
  ad_days :: "rat field"
  ad_readable :: "string field"
  ad_is_session :: "bool field"

record cookie =
  ck_name :: "string option"
  ck_value :: "string option"
  ck_domain :: "string option"
  ck_path :: "string option"
  ck_secure :: "bool option"
  ck_httponly :: "bool option"
  ck_httpOnly :: "bool option"
  ck_samesite :: "string option"
  ck_sameSite :: "string option"
  ck_age :: "age_dict option"
  ck_is_third_party :: "bool option"
  ck_tracking_purpose :: "string option"

record snapshot =
  snap_url :: "string option"
  snap_cookies :: "cookie list option"
  snap_localStorage :: "(string \<times> string) list option"
  snap_sessionStorage :: "(string \<times> string) list option"
  snap_third_party_cookies :: "cookie list option"

text \<open>\<^verbatim>\<open>d.get(key, default)\<close> on an optional field.\<close>

definition get_or :: "'a option \<Rightarrow> 'a \<Rightarrow> 'a" where
  "get_or v d = (case v of None \<Rightarrow> d | Some x \<Rightarrow> x)"

text \<open>
  Python dictionaries built by the analysis keep insertion order; they are association
  lists. \<open>dict_set\<close> is the assignment \<^verbatim>\<open>d[k] = v\<close>: an existing key keeps its place, a
  new key goes to the end.
\<close>

fun dict_set :: "'k \<Rightarrow> 'v \<Rightarrow> ('k \<times> 'v) list \<Rightarrow> ('k \<times> 'v) list" where
  "dict_set k v [] = [(k, v)]"
| "dict_set k v (p # ps) = (if fst p = k then (k, v) # ps else p # dict_set k v ps)"

definition dict_get :: "('k \<times> 'v) list \<Rightarrow> 'k \<Rightarrow> 'v \<Rightarrow> 'v" where
  "dict_get d k dflt = get_or (map_of d k) dflt"

definition dict_incr :: "'k \<Rightarrow> ('k \<times> nat) list \<Rightarrow> ('k \<times> nat) list" where
  "dict_incr k d = dict_set k (dict_get d k 0 + 1) d"

text \<open>
  \<^verbatim>\<open>sorted(d.items(), key=lambda x: x[1], reverse=True)[:10]\<close>: a stable sort by
  descending count, cut to ten entries.
\<close>

definition top10 :: "('k \<times> nat) list \<Rightarrow> ('k \<times> nat) list" where
  "top10 d = take 10 (sort_key (\<lambda>p. - int (snd p)) d)"

text \<open>
  \<^verbatim>\<open>urlparse(url).netloc\<close> of the standard library, for the part this code depends on: an
  optional scheme (a letter followed by letters, digits, +, - or . up to the first
  colon), then, after \<^verbatim>\<open>//\<close>, the authority up to the first /, ? or #. Without \<^verbatim>\<open>//\<close>
  the netloc is empty. Left out are the library's stripping of leading blanks and
  control characters, its removal of tab and newline characters, and the
  \<^verbatim>\<open>ValueError\<close> it raises on unbalanced square brackets in the authority; the
  URLs evaluated below have none of these.
\<close>

definition is_alpha :: "char \<Rightarrow> bool" where
  "is_alpha c = (let n = (of_char c :: nat) in (65 \<le> n \<and> n \<le> 90) \<or> (97 \<le> n \<and> n \<le> 122))"

definition is_scheme_char :: "char \<Rightarrow> bool" where
  "is_scheme_char c =
     (let n = (of_char c :: nat)
      in is_alpha c \<or> (48 \<le> n \<and> n \<le> 57) \<or> c \<in> set ''+-.'')"

definition strip_scheme :: "string \<Rightarrow> string" where
  "strip_scheme u =
     (let pre = takeWhile (\<lambda>c. c \<noteq> CHR '':'') u
      in if CHR '':'' \<in> set u \<and> pre \<noteq> [] \<and> is_alpha (hd pre) \<and> list_all is_scheme_char pre
         then drop (length pre + 1) u else u)"

definition urlparse_netloc :: "string \<Rightarrow> string" where
  "urlparse_netloc u =
     (let rest = strip_scheme u
      in if take 2 rest = ''//''
         then takeWhile (\<lambda>c. c \<notin> set ''/?#'') (drop 2 rest) else [])"

section \<open>The XSS scan (analyze\_xss\_vulnerabilities)\<close>

record vulnerable_cookie =
  vc_name :: string
  vc_matched_patterns :: "string list"
  vc_httponly :: bool
  vc_secure :: bool

record vulnerable_domain =
  vd_count :: nat
  vd_cookies :: "vulnerable_cookie list"

record xss_finding =
  xf_domain :: string
  xf_cookie_domain :: string
  xf_cookie_name :: string
  xf_matched_patterns :: "string list"
  xf_httponly :: bool
  xf_secure :: bool
  xf_path :: string
  xf_sameSite :: string

record xss_stats =
  total_cookies_analyzed :: nat
  potentially_vulnerable_cookies :: nat
  xss_findings :: "xss_finding list"
  vulnerable_domains :: "(string \<times> vulnerable_domain) list"

definition initialize_xss_stats :: xss_stats where
  "initialize_xss_stats =
     \<lparr>total_cookies_analyzed = 0, potentially_vulnerable_cookies = 0,
      xss_findings = [], vulnerable_domains = []\<rparr>"

text \<open>The pattern table of \<^verbatim>\<open>_get_xss_patterns\<close>; \<open>bsl\<close> is the backslash.\<close>

definition bsl :: string where
  "bsl = [CHR 0x5C]"

definition xss_patterns :: "string list" where
  "xss_patterns =
     [''<script[^>]*>'',
      ''javascript'' @ bsl @ ''s*:'',
      bsl @ ''bon'' @ bsl @ ''w+'' @ bsl @ ''s*='',
      bsl @ ''beval'' @ bsl @ ''s*'' @ bsl @ ''('',
      ''document'' @ bsl @ ''.cookie'',
      ''document'' @ bsl @ ''.location'',
      ''<img[^>]*'' @ bsl @ ''bonerror'' @ bsl @ ''b[^>]*>'',
      ''<iframe[^>]*>'',
      bsl @ ''balert'' @ bsl @ ''s*'' @ bsl @ ''('',
      bsl @ ''bprompt'' @ bsl @ ''s*'' @ bsl @ ''('',
      bsl @ ''bconfirm'' @ bsl @ ''s*'' @ bsl @ ''('',
      bsl @ ''bdocument'' @ bsl @ ''.write'' @ bsl @ ''s*'' @ bsl @ ''('',
      bsl @ ''bdocument'' @ bsl @ ''.domain'',
      bsl @ ''blocation'' @ bsl @ ''.href'',
      bsl @ ''blocation'' @ bsl @ ''.replace'' @ bsl @ ''s*'' @ bsl @ ''('',
      bsl @ ''bwindow'' @ bsl @ ''.open'' @ bsl @ ''s*'' @ bsl @ ''('',
      ''data:text/html'',
      ''&#x[0-9a-fA-F]+;'',
      ''&#[0-9]+;'',
      bsl @ bsl @ ''x[0-9a-fA-F]{2}'',
      bsl @ bsl @ ''u[0-9a-fA-F]{4}'']"

text \<open>
  The regular-expression engine and \<^verbatim>\<open>urllib.parse.unquote\<close> are library code: \<open>search p s\<close>
  stands for \<^verbatim>\<open>re.compile(p, re.IGNORECASE).search(s)\<close> finding a match, \<open>unquote\<close>
  for the URL decoding (which does not raise on a string).
\<close>

definition check_cookie_for_xss ::
  "(string \<Rightarrow> string \<Rightarrow> bool) \<Rightarrow> (string \<Rightarrow> string) \<Rightarrow> string \<Rightarrow> string list" where
  "check_cookie_for_xss search unquote cookie_value =
     (let decoded_value = unquote cookie_value
      in filter (\<lambda>pattern. search pattern decoded_value) xss_patterns)"

definition update_xss_stats ::
  "xss_stats \<Rightarrow> string \<Rightarrow> cookie \<Rightarrow> string \<Rightarrow> string \<Rightarrow> string list \<Rightarrow> xss_stats" where
  "update_xss_stats stats domain cookie cookie_name cookie_domain matched_patterns =
     (let vds = (case map_of (vulnerable_domains stats) domain of
                   None \<Rightarrow> vulnerable_domains stats @ [(domain, \<lparr>vd_count = 0, vd_cookies = []\<rparr>)]
                 | Some e \<Rightarrow> vulnerable_domains stats);
          entry = dict_get vds domain \<lparr>vd_count = 0, vd_cookies = []\<rparr>;
          entry' = \<lparr>vd_count = vd_count entry + 1,
                    vd_cookies = vd_cookies entry @
                      [\<lparr>vc_name = cookie_name, vc_matched_patterns = matched_patterns,
                        vc_httponly = get_or (ck_httpOnly cookie) False,
                        vc_secure = get_or (ck_secure cookie) False\<rparr>]\<rparr>;
          finding = \<lparr>xf_domain = domain, xf_cookie_domain = cookie_domain,
                     xf_cookie_name = cookie_name, xf_matched_patterns = matched_patterns,
                     xf_httponly = get_or (ck_httpOnly cookie) False,
                     xf_secure = get_or (ck_secure cookie) False,
                     xf_path = get_or (ck_path cookie) ''/'',
                     xf_sameSite = get_or (ck_sameSite cookie) ''None''\<rparr>
      in stats\<lparr>potentially_vulnerable_cookies := potentially_vulnerable_cookies stats + 1,
               vulnerable_domains := dict_set domain entry' vds,
               xss_findings := xss_findings stats @ [finding]\<rparr>)"

definition xss_cookie_step ::
  "(string \<Rightarrow> string \<Rightarrow> bool) \<Rightarrow> (string \<Rightarrow> string) \<Rightarrow> string \<Rightarrow> cookie \<Rightarrow> xss_stats \<Rightarrow> xss_stats" where
  "xss_cookie_step search unquote domain cookie stats0 =
     (let stats = stats0\<lparr>total_cookies_analyzed := total_cookies_analyzed stats0 + 1\<rparr>;
          cookie_name = get_or (ck_name cookie) ''unknown'';
          cookie_value = get_or (ck_value cookie) [];
          cookie_domain = get_or (ck_domain cookie) domain
      in if cookie_value = [] then stats
         else
           let matched_patterns = check_cookie_for_xss search unquote cookie_value
           in if matched_patterns \<noteq> []
              then update_xss_stats stats domain cookie cookie_name cookie_domain matched_patterns
              else stats)"

definition process_cookies_for_xss ::
  "(string \<Rightarrow> string \<Rightarrow> bool) \<Rightarrow> (string \<Rightarrow> string) \<Rightarrow> snapshot \<Rightarrow> string \<Rightarrow> xss_stats \<Rightarrow> xss_stats" where
  "process_cookies_for_xss search unquote data domain stats =
     fold (xss_cookie_step search unquote domain) (get_or (snap_cookies data) []) stats"

definition xss_file_step ::
  "(string \<Rightarrow> string \<Rightarrow> bool) \<Rightarrow> (string \<Rightarrow> string) \<Rightarrow> snapshot \<Rightarrow> xss_stats \<Rightarrow> xss_stats" where
  "xss_file_step search unquote data stats =
     (let url = get_or (snap_url data) ''unknown'';
          domain = urlparse_netloc url
      in process_cookies_for_xss search unquote data domain stats)"

definition analyze_xss_vulnerabilities ::
  "(string \<Rightarrow> string \<Rightarrow> bool) \<Rightarrow> (string \<Rightarrow> string) \<Rightarrow> snapshot list \<Rightarrow> xss_stats" where
  "analyze_xss_vulnerabilities search unquote cookie_files =
     (if cookie_files = []
      then \<lparr>total_cookies_analyzed = 0, potentially_vulnerable_cookies = 0,
            xss_findings = [], vulnerable_domains = []\<rparr>
      else fold (xss_file_step search unquote) cookie_files initialize_xss_stats)"

definition sum_counts :: "(string \<times> vulnerable_domain) list \<Rightarrow> nat" where
  "sum_counts vds = sum_list (map (\<lambda>p. vd_count (snd p)) vds)"

text \<open>The consistency of a scan result: the three views of the number of findings.\<close>

definition xss_consistent :: "xss_stats \<Rightarrow> bool" where
  "xss_consistent st =
     (potentially_vulnerable_cookies st = length (xss_findings st)
      \<and> potentially_vulnerable_cookies st = sum_counts (vulnerable_domains st)
      \<and> potentially_vulnerable_cookies st \<le> total_cookies_analyzed st)"

section \<open>The aggregator (analyze\_cookies)\<close>

record age_categories =
  cat_session :: nat
  cat_short_term :: nat
  cat_medium_term :: nat
  cat_long_term :: nat
  cat_expired :: nat

record cookie_stats =
  total_domains :: nat
  total_cookies :: nat
  total_localStorage :: nat
  total_sessionStorage :: nat
  cookies_per_domain :: "(string \<times> nat) list"
  storage_per_domain :: "(string \<times> nat) list"
  common_cookie_names :: "(string \<times> nat) list"
  common_storage_keys :: "(string \<times> nat) list"
  secure_cookies :: nat
  httponly_cookies :: nat
  third_party_cookies :: nat
  session_cookies :: nat
  persistent_cookies :: nat
  cookie_age_categories :: age_categories
  avg_cookie_age_days :: rat
  max_cookie_age_days :: int
  cookie_age_distribution :: "(int \<times> nat) list"
  samesite_stats :: "(string \<times> nat) list"
  samesite_by_domain :: "(string \<times> (string \<times> nat) list) list"

definition zero_age_categories :: age_categories where
  "zero_age_categories =
     \<lparr>cat_session = 0, cat_short_term = 0, cat_medium_term = 0, cat_long_term = 0,
      cat_expired = 0\<rparr>"

definition zero_samesite :: "(string \<times> nat) list" where
  "zero_samesite = [(''None'', 0), (''Lax'', 0), (''Strict'', 0), (''unspecified'', 0)]"

text \<open>
  The statistics before the loop; for an empty input they are the result. (For an empty
  input the source returns the same zero values, with a key \<^verbatim>\<open>domain_analysis\<close> holding
  an empty dictionary in place of \<^verbatim>\<open>cookie_age_distribution\<close>.)
\<close>

definition initial_cookie_stats :: "snapshot list \<Rightarrow> cookie_stats" where
  "initial_cookie_stats cookie_files =
     \<lparr>total_domains = length cookie_files,
      total_cookies = sum_list (map (\<lambda>data. length (get_or (snap_cookies data) [])) cookie_files),
      total_localStorage =
        sum_list (map (\<lambda>data. length (get_or (snap_localStorage data) [])) cookie_files),
      total_sessionStorage =
        sum_list (map (\<lambda>data. length (get_or (snap_sessionStorage data) [])) cookie_files),
      cookies_per_domain = [], storage_per_domain = [],
      common_cookie_names = [], common_storage_keys = [],
      secure_cookies = 0, httponly_cookies = 0, third_party_cookies = 0,
      session_cookies = 0, persistent_cookies = 0,
      cookie_age_categories = zero_age_categories,
      avg_cookie_age_days = 0, max_cookie_age_days = 0,
      cookie_age_distribution = [],
      samesite_stats = zero_samesite, samesite_by_domain = []\<rparr>"

text \<open>Truthiness of the age dictionary, and its two reads.\<close>

definition age_truthy :: "age_dict \<Rightarrow> bool" where
  "age_truthy a =
     (\<not> (ad_seconds a = Absent \<and> ad_days a = Absent \<and> ad_readable a = Absent
         \<and> ad_is_session a = Absent))"

fun is_session_truthy :: "bool field \<Rightarrow> bool" where
  "is_session_truthy Absent = True"
| "is_session_truthy Null = False"
| "is_session_truthy (Val b) = b"

fun field_get :: "'a field \<Rightarrow> 'a option" where
  "field_get Absent = None"
| "field_get Null = None"
| "field_get (Val x) = Some x"

definition categorize_age :: "rat \<Rightarrow> age_categories \<Rightarrow> age_categories" where
  "categorize_age age_days cats =
     (if age_days \<le> 0 then cats\<lparr>cat_expired := cat_expired cats + 1\<rparr>
      else if age_days < 1 then cats\<lparr>cat_short_term := cat_short_term cats + 1\<rparr>
      else if age_days \<le> 30 then cats\<lparr>cat_medium_term := cat_medium_term cats + 1\<rparr>
      else cats\<lparr>cat_long_term := cat_long_term cats + 1\<rparr>)"

definition count_age :: "age_dict \<Rightarrow> cookie_stats \<Rightarrow> cookie_stats" where
  "count_age age_info stats =
     (if is_session_truthy (ad_is_session age_info)
      then stats\<lparr>session_cookies := session_cookies stats + 1,
                 cookie_age_categories :=
                   (cookie_age_categories stats)
                     \<lparr>cat_session := cat_session (cookie_age_categories stats) + 1\<rparr>\<rparr>
      else
        let stats1 = stats\<lparr>persistent_cookies := persistent_cookies stats + 1\<rparr>
        in case field_get (ad_days age_info) of
             None \<Rightarrow> stats1
           | Some age_days \<Rightarrow>
               (let rounded_age = max 0 (py_int age_days)
                in stats1\<lparr>cookie_age_categories :=
                             categorize_age age_days (cookie_age_categories stats1),
                           cookie_age_distribution :=
                             dict_incr rounded_age (cookie_age_distribution stats1)\<rparr>))"

definition upper_char :: "char \<Rightarrow> char" where
  "upper_char c =
     (let n = (of_char c :: nat)
      in if 97 \<le> n \<and> n \<le> 122 then char_of (n - 32) else c)"

fun py_capitalize :: "string \<Rightarrow> string" where
  "py_capitalize [] = []"
| "py_capitalize (c # cs) = upper_char c # py_lower cs"

definition normalize_samesite :: "string \<Rightarrow> string" where
  "normalize_samesite samesite =
     (if samesite = [] then ''unspecified''
      else if py_lower samesite \<notin> set [''none'', ''lax'', ''strict''] then ''unspecified''
      else py_capitalize samesite)"

definition cookie_step :: "string \<Rightarrow> string \<Rightarrow> cookie \<Rightarrow> cookie_stats \<Rightarrow> cookie_stats" where
  "cookie_step domain main_domain cookie stats0 =
     (let name = get_or (ck_name cookie) [];
          stats1 = stats0\<lparr>common_cookie_names := dict_incr name (common_cookie_names stats0)\<rparr>;
          stats2 = (if get_or (ck_secure cookie) False
                    then stats1\<lparr>secure_cookies := secure_cookies stats1 + 1\<rparr> else stats1);
          stats3 = (if get_or (ck_httponly cookie) False
                    then stats2\<lparr>httponly_cookies := httponly_cookies stats2 + 1\<rparr> else stats2);
          cookie_domain = get_or (ck_domain cookie) [];
          stats4 = (if cookie_domain \<noteq> [] \<and> \<not> suffix main_domain cookie_domain
                       \<and> \<not> suffix cookie_domain main_domain
                    then stats3\<lparr>third_party_cookies := third_party_cookies stats3 + 1\<rparr>
                    else stats3);
          stats5 = (case ck_age cookie of
                      None \<Rightarrow> stats4
                    | Some age_info \<Rightarrow>
                        if age_truthy age_info then count_age age_info stats4 else stats4);
          samesite = normalize_samesite (get_or (ck_samesite cookie) []);
          stats6 = stats5\<lparr>samesite_stats := dict_incr samesite (samesite_stats stats5)\<rparr>;
          by_domain = (case map_of (samesite_by_domain stats6) domain of
                         None \<Rightarrow> samesite_by_domain stats6 @ [(domain, zero_samesite)]
                       | Some e \<Rightarrow> samesite_by_domain stats6)
      in stats6\<lparr>samesite_by_domain :=
                  dict_set domain (dict_incr samesite (dict_get by_domain domain zero_samesite))
                    by_domain\<rparr>)"

definition storage_key_step :: "string \<Rightarrow> string \<Rightarrow> cookie_stats \<Rightarrow> cookie_stats" where
  "storage_key_step kind key stats =
     stats\<lparr>common_storage_keys := dict_incr (kind @ '':'' @ key) (common_storage_keys stats)\<rparr>"

definition main_domain_of :: "snapshot \<Rightarrow> string" where
  "main_domain_of data =
     (case snap_url data of
        None \<Rightarrow> ''unknown''
      | Some url \<Rightarrow> join_with ''.'' (last_n 2 (split_on CHR ''.'' (urlparse_netloc url))))"

definition file_step :: "snapshot \<Rightarrow> cookie_stats \<Rightarrow> cookie_stats" where
  "file_step data stats0 =
     (let domain = get_or (snap_url data) ''unknown'';
          cookies = get_or (snap_cookies data) [];
          local_storage = get_or (snap_localStorage data) [];
          session_storage = get_or (snap_sessionStorage data) [];
          stats1 = stats0\<lparr>cookies_per_domain :=
                            dict_set domain (length cookies) (cookies_per_domain stats0),
                          storage_per_domain :=
                            dict_set domain (length local_storage + length session_storage)
                              (storage_per_domain stats0)\<rparr>;
          main_domain = main_domain_of data;
          stats2 = fold (cookie_step domain main_domain) cookies stats1;
          stats3 = fold (storage_key_step ''localStorage'') (map fst local_storage) stats2
      in fold (storage_key_step ''sessionStorage'') (map fst session_storage) stats3)"

definition persistent_ages_of :: "(int \<times> nat) list \<Rightarrow> int list" where
  "persistent_ages_of distribution =
     concat (map (\<lambda>p. if fst p > 0 then replicate (snd p) (fst p) else []) distribution)"

definition finalize_cookie_stats :: "cookie_stats \<Rightarrow> cookie_stats" where
  "finalize_cookie_stats stats0 =
     (let stats1 = stats0\<lparr>common_cookie_names := top10 (common_cookie_names stats0),
                          common_storage_keys := top10 (common_storage_keys stats0)\<rparr>;
          persistent_ages = persistent_ages_of (cookie_age_distribution stats1);
          stats2 = (if persistent_ages \<noteq> []
                    then stats1\<lparr>avg_cookie_age_days :=
                                  of_int (sum_list persistent_ages) / of_nat (length persistent_ages),
                                max_cookie_age_days := Max (set persistent_ages)\<rparr>
                    else stats1)
      in stats2\<lparr>cookie_age_distribution := sort_key fst (cookie_age_distribution stats2)\<rparr>)"

definition analyze_cookies :: "snapshot list \<Rightarrow> cookie_stats" where
  "analyze_cookies cookie_files =
     (if cookie_files = [] then initial_cookie_stats []
      else finalize_cookie_stats (fold file_step cookie_files (initial_cookie_stats cookie_files)))"

text \<open>
  What the aggregator counts, cookie by cookie: a cookie carries an age when its
  \<^verbatim>\<open>age\<close> dictionary is present and not empty; it is counted as third-party when its
  domain is not empty and neither it nor the page's main domain (the last two labels of
  the URL's netloc) ends with the other.
\<close>

definition has_age :: "cookie \<Rightarrow> bool" where
  "has_age c = (case ck_age c of None \<Rightarrow> False | Some a \<Rightarrow> age_truthy a)"

definition suffix_third_party :: "string \<Rightarrow> cookie \<Rightarrow> bool" where
  "suffix_third_party main_domain c =
     (let d = get_or (ck_domain c) []
      in d \<noteq> [] \<and> \<not> (suffix main_domain d \<or> suffix d main_domain))"

definition cookies_of :: "snapshot \<Rightarrow> cookie list" where
  "cookies_of data = get_or (snap_cookies data) []"

text \<open>
  The third-party test that section 4.4 of the specification describes, with the
  resolver of section 4.1: strip a leading dot from the cookie domain and compare the
  registered domains of cookie and page.
\<close>

definition strip_leading_dot :: "string \<Rightarrow> string" where
  "strip_leading_dot d = (if prefix ''.'' d then drop 1 d else d)"

definition registered_domains_differ :: "string \<Rightarrow> string \<Rightarrow> bool" where
  "registered_domains_differ cookie_domain page_domain =
     (extract_base_domain (strip_leading_dot cookie_domain) \<noteq> extract_base_domain page_domain)"

section \<open>The domain-relationship analysis (analyze\_domain\_relationships)\<close>

text \<open>
  Two things this function uses lie outside the repository. \<^verbatim>\<open>tldextract.extract\<close>
  is the parameter \<open>extract\<close>: it answers the pair (domain, suffix) of a host name, or
  \<open>None\<close> where the call raises (the source catches that and falls back on the host
  name itself). The order in which \<^verbatim>\<open>list(s)\<close> enumerates a Python set is the
  parameter \<open>set_order\<close>: a set is kept as the duplicate-free list of its elements in
  insertion order, and \<open>set_order\<close> turns that list into the enumeration.
\<close>

record third_party_entry =
  tp_count :: nat
  tp_purposes :: "string list"
  tp_cookie_names :: "string list"

record relationship =
  third_parties :: "(string \<times> third_party_entry) list"
  total_third_party_cookies :: nat

record relationship_stats =
  domain_relationships :: "(string \<times> relationship) list"
  third_party_domains :: "(string \<times> nat) list"
  third_party_purposes :: "(string \<times> (string \<times> nat) list) list"
  top_trackers :: "(string \<times> nat) list"

definition empty_entry :: third_party_entry where
  "empty_entry = \<lparr>tp_count = 0, tp_purposes = [], tp_cookie_names = []\<rparr>"

definition empty_relationship :: relationship where
  "empty_relationship = \<lparr>third_parties = [], total_third_party_cookies = 0\<rparr>"

definition empty_relationship_stats :: relationship_stats where
  "empty_relationship_stats =
     \<lparr>domain_relationships = [], third_party_domains = [], third_party_purposes = [],
      top_trackers = []\<rparr>"

definition set_add :: "'a \<Rightarrow> 'a list \<Rightarrow> 'a list" where
  "set_add x xs = (if x \<in> set xs then xs else xs @ [x])"

text \<open>The f-string \<^verbatim>\<open>f"{extract.domain}.{extract.suffix}"\<close>, or the host name on failure.\<close>

definition registered_or :: "(string \<Rightarrow> (string \<times> string) option) \<Rightarrow> string \<Rightarrow> string" where
  "registered_or extract host =
     (case extract host of None \<Rightarrow> host | Some r \<Rightarrow> fst r @ ''.'' @ snd r)"

text \<open>
  The update of the graph for one third-party cookie: create the entry of the
  third-party domain if it is new, count the cookie there and in the first party's
  total, and note the cookie's name. The pre-tagged path also adds the purpose to the
  entry's set.
\<close>

definition note_third_party ::
  "string \<Rightarrow> string \<Rightarrow> string option \<Rightarrow> relationship \<Rightarrow> relationship" where
  "note_third_party third_party_registered cookie_name purpose rel =
     (let tps = (case map_of (third_parties rel) third_party_registered of
                   None \<Rightarrow> third_parties rel @ [(third_party_registered, empty_entry)]
                 | Some e \<Rightarrow> third_parties rel);
          entry = dict_get tps third_party_registered empty_entry;
          entry' = \<lparr>tp_count = tp_count entry + 1,
                    tp_purposes = (case purpose of None \<Rightarrow> tp_purposes entry
                                   | Some p \<Rightarrow> set_add p (tp_purposes entry)),
                    tp_cookie_names = tp_cookie_names entry @ [cookie_name]\<rparr>
      in \<lparr>third_parties = dict_set third_party_registered entry' tps,
          total_third_party_cookies = total_third_party_cookies rel + 1\<rparr>)"

definition tagged_cookie_step ::
  "(string \<Rightarrow> (string \<times> string) option) \<Rightarrow> string \<Rightarrow> cookie \<Rightarrow> relationship_stats
   \<Rightarrow> relationship_stats" where
  "tagged_cookie_step extract first_party_registered cookie stats =
     (let cookie_domain0 = get_or (ck_domain cookie) []
      in if cookie_domain0 = [] then stats
         else
           let cookie_domain = (if prefix ''.'' cookie_domain0 then drop 1 cookie_domain0
                                else cookie_domain0);
               third_party_registered = registered_or extract cookie_domain
           in if third_party_registered = first_party_registered then stats
              else
                let cookie_name = get_or (ck_name cookie) ''unknown'';
                    purpose = get_or (ck_tracking_purpose cookie) ''Unknown'';
                    rel = dict_get (domain_relationships stats) first_party_registered
                            empty_relationship;
                    purposes0 = (case map_of (third_party_purposes stats) third_party_registered of
                                   None \<Rightarrow> third_party_purposes stats @ [(third_party_registered, [])]
                                 | Some e \<Rightarrow> third_party_purposes stats);
                    by_purpose = dict_get purposes0 third_party_registered []
                in stats\<lparr>domain_relationships :=
                            dict_set first_party_registered
                              (note_third_party third_party_registered cookie_name (Some purpose) rel)
                              (domain_relationships stats),
                          third_party_domains :=
                            dict_incr third_party_registered (third_party_domains stats),
                          third_party_purposes :=
                            dict_set third_party_registered
                              (dict_set purpose (dict_get by_purpose purpose 0 + 1) by_purpose)
                              purposes0\<rparr>)"

definition fallback_cookie_step ::
  "(string \<Rightarrow> (string \<times> string) option) \<Rightarrow> string \<Rightarrow> string \<Rightarrow> cookie \<Rightarrow> relationship_stats
   \<Rightarrow> relationship_stats" where
  "fallback_cookie_step extract first_party_domain first_party_registered cookie stats =
     (let cookie_domain0 = get_or (ck_domain cookie) []
      in if cookie_domain0 = [] then stats
         else
           let flagged = get_or (ck_is_third_party cookie) False;
               cookie_domain = (if \<not> flagged \<and> prefix ''.'' cookie_domain0
                                then drop 1 cookie_domain0 else cookie_domain0);
               is_third_party =
                 (if flagged then True
                  else case extract cookie_domain of
                         Some r \<Rightarrow> fst r @ ''.'' @ snd r \<noteq> first_party_registered
                       | None \<Rightarrow> cookie_domain \<noteq> first_party_domain)
           in if is_third_party
              then
                let third_party_registered = registered_or extract cookie_domain;
                    cookie_name = get_or (ck_name cookie) ''unknown'';
                    rel = dict_get (domain_relationships stats) first_party_registered
                            empty_relationship
                in stats\<lparr>domain_relationships :=
                            dict_set first_party_registered
                              (note_third_party third_party_registered cookie_name None rel)
                              (domain_relationships stats),
                          third_party_domains :=
                            dict_incr third_party_registered (third_party_domains stats)\<rparr>
              else stats)"

definition first_party_of :: "(string \<Rightarrow> (string \<times> string) option) \<Rightarrow> snapshot \<Rightarrow> string" where
  "first_party_of extract data =
     registered_or extract (urlparse_netloc (get_or (snap_url data) ''unknown''))"

definition relationship_file_step ::
  "(string \<Rightarrow> (string \<times> string) option) \<Rightarrow> snapshot \<Rightarrow> relationship_stats \<Rightarrow> relationship_stats" where
  "relationship_file_step extract data stats0 =
     (let url = get_or (snap_url data) ''unknown'';
          first_party_domain = urlparse_netloc url;
          first_party_registered = registered_or extract first_party_domain;
          stats = (case map_of (domain_relationships stats0) first_party_registered of
                     None \<Rightarrow> stats0\<lparr>domain_relationships :=
                                domain_relationships stats0 @
                                  [(first_party_registered, empty_relationship)]\<rparr>
                   | Some e \<Rightarrow> stats0);
          third_party_cookies = get_or (snap_third_party_cookies data) []
      in if third_party_cookies \<noteq> []
         then fold (tagged_cookie_step extract first_party_registered) third_party_cookies stats
         else case snap_cookies data of
                None \<Rightarrow> stats
              | Some cookies \<Rightarrow>
                  fold (fallback_cookie_step extract first_party_domain first_party_registered)
                    cookies stats)"

definition materialize_purposes ::
  "(string list \<Rightarrow> string list) \<Rightarrow> relationship_stats \<Rightarrow> relationship_stats" where
  "materialize_purposes set_order stats =
     stats\<lparr>domain_relationships :=
       map (\<lambda>fp. (fst fp,
              (snd fp)\<lparr>third_parties :=
                 map (\<lambda>tp. (fst tp, (snd tp)\<lparr>tp_purposes := set_order (tp_purposes (snd tp))\<rparr>))
                   (third_parties (snd fp))\<rparr>))
         (domain_relationships stats)\<rparr>"

definition analyze_domain_relationships ::
  "(string \<Rightarrow> (string \<times> string) option) \<Rightarrow> (string list \<Rightarrow> string list) \<Rightarrow> snapshot list
   \<Rightarrow> relationship_stats" where
  "analyze_domain_relationships extract set_order cookie_files =
     (if cookie_files = [] then empty_relationship_stats
      else
        let stats = materialize_purposes set_order
                      (fold (relationship_file_step extract) cookie_files empty_relationship_stats)
        in stats\<lparr>top_trackers := top10 (third_party_domains stats)\<rparr>)"

text \<open>All the \<^verbatim>\<open>purposes\<close> fields of a result, in the order of the graph.\<close>

definition all_purposes :: "relationship_stats \<Rightarrow> string list list" where
  "all_purposes stats =
     concat (map (\<lambda>fp. map (\<lambda>tp. tp_purposes (snd tp)) (third_parties (snd fp)))
       (domain_relationships stats))"

text \<open>
  The invariant of the graph under construction: every set of purposes is a
  duplicate-free list.
\<close>

definition rel_ok :: "relationship \<Rightarrow> bool" where
  "rel_ok rel = (\<forall>tp\<in>set (third_parties rel). distinct (tp_purposes (snd tp)))"

definition stats_ok :: "relationship_stats \<Rightarrow> bool" where
  "stats_ok st = (\<forall>fp\<in>set (domain_relationships st). rel_ok (snd fp))"

text \<open>
  A stand-in for \<^verbatim>\<open>tldextract.extract\<close> in the examples, right for host names under a
  one-label public suffix such as com or net: the suffix is the last label, the domain
  the label before it.
\<close>

definition one_label_extract :: "string \<Rightarrow> (string \<times> string) option" where
  "one_label_extract host =
     (let parts = split_on CHR ''.'' host
      in if length parts \<ge> 2 then Some (last (butlast parts), last parts)
         else Some (host, []))"

text \<open>
  Parameters for the examples: a \<^verbatim>\<open>float()\<close> that is never asked (the examples pass
  numbers), and a set enumeration that follows the insertion order, one of the orders a
  Python set of a few strings can have.
\<close>

definition no_float :: "string \<Rightarrow> rat option" where
  "no_float s = None"

definition insertion_order :: "string list \<Rightarrow> string list" where
  "insertion_order xs = xs"

text \<open>Example inputs: records with every key absent, to be filled in.\<close>

definition bare_cookie :: cookie where
  "bare_cookie =
     \<lparr>ck_name = None, ck_value = None, ck_domain = None, ck_path = None, ck_secure = None,
      ck_httponly = None, ck_httpOnly = None, ck_samesite = None, ck_sameSite = None,
      ck_age = None, ck_is_third_party = None, ck_tracking_purpose = None\<rparr>"

definition bare_snapshot :: snapshot where
  "bare_snapshot =
     \<lparr>snap_url = None, snap_cookies = None, snap_localStorage = None,
      snap_sessionStorage = None, snap_third_party_cookies = None\<rparr>"

text \<open>The age dictionary the collector stores for a session cookie.\<close>

definition session_age_dict :: age_dict where
  "session_age_dict =
     \<lparr>ad_seconds = Null, ad_days = Null,
      ad_readable = Val ''Session cookie (expires when browser closes)'',
      ad_is_session = Val True\<rparr>"

text \<open>One page with one cookie in the raw collector format: no \<^verbatim>\<open>age\<close> key.\<close>

definition raw_example :: "snapshot list" where
  "raw_example =
     [bare_snapshot\<lparr>snap_url := Some ''http://example.com/'',
        snap_cookies :=
          Some [bare_cookie\<lparr>ck_name := Some ''sid'', ck_value := Some ''abc'',
                  ck_domain := Some ''example.com''\<rparr>]\<rparr>]"

text \<open>One page with two cookies that both carry an age.\<close>

definition aged_example :: "snapshot list" where
  "aged_example =
     [bare_snapshot\<lparr>snap_url := Some ''http://a.com/'',
        snap_cookies :=
          Some [bare_cookie\<lparr>ck_name := Some ''sid'', ck_domain := Some ''a.com'',
                  ck_age := Some session_age_dict\<rparr>,
                bare_cookie\<lparr>ck_name := Some ''_ga'', ck_domain := Some ''tracker.net'',
                  ck_age := Some session_age_dict\<rparr>]\<rparr>]"

text \<open>The page example.com with a cookie of the unrelated domain notexample.com.\<close>

definition lookalike_example :: "snapshot list" where
  "lookalike_example =
     [bare_snapshot\<lparr>snap_url := Some ''http://example.com/'',
        snap_cookies :=
          Some [bare_cookie\<lparr>ck_name := Some ''id'', ck_value := Some ''1'',
                  ck_domain := Some ''notexample.com''\<rparr>]\<rparr>]"

text \<open>
  The page a.com with two pre-tagged cookies of tracker.net: the first has no
  \<^verbatim>\<open>tracking_purpose\<close>, the second is tagged Analytics.
\<close>

definition purposes_example :: "snapshot list" where
  "purposes_example =
     [bare_snapshot\<lparr>snap_url := Some ''http://a.com/'',
        snap_third_party_cookies :=
          Some [bare_cookie\<lparr>ck_name := Some ''uid'', ck_domain := Some ''tracker.net''\<rparr>,
                bare_cookie\<lparr>ck_name := Some ''_ga'', ck_domain := Some ''.tracker.net'',
                  ck_tracking_purpose := Some ''Analytics''\<rparr>]\<rparr>]"

text \<open>
  The page a.com whose pre-tagged list holds a cookie of a.com itself, followed by a
  cookie of tracker.net.
\<close>

definition same_party_cookie :: cookie where
  "same_party_cookie = bare_cookie\<lparr>ck_name := Some ''sid'', ck_domain := Some ''.a.com''\<rparr>"

definition tracker_cookie :: cookie where
  "tracker_cookie =
     bare_cookie\<lparr>ck_name := Some ''_ga'', ck_domain := Some ''tracker.net'',
       ck_tracking_purpose := Some ''Analytics''\<rparr>"

definition same_party_snapshot :: snapshot where
  "same_party_snapshot =
     bare_snapshot\<lparr>snap_url := Some ''http://a.com/'',
       snap_third_party_cookies := Some [same_party_cookie, tracker_cookie]\<rparr>"

section \<open>Facts about the string helpers\<close>

lemma split_first_takeWhile: "split_first c s = takeWhile (\<lambda>x. x \<noteq> c) s"
  by (induction s) auto

lemma split_on_nonempty: "split_on c s \<noteq> []"
  by (induction s) (auto split: list.splits)

lemma nth_last_butlast: "2 \<le> length xs \<Longrightarrow> xs ! (length xs - 2) = last (butlast xs)"
proof -
  assume len: "2 \<le> length xs"
  then obtain ys b where xs: "xs = ys @ [b]" by (cases xs rule: rev_cases) auto
  with len obtain zs a where ys: "ys = zs @ [a]" by (cases ys rule: rev_cases) auto
  show ?thesis by (simp add: xs ys nth_append butlast_append)
qed

lemma nth_last: "xs \<noteq> [] \<Longrightarrow> xs ! (length xs - 1) = last xs"
  by (simp add: last_conv_nth)

lemma last_n_short: "length xs \<le> n \<Longrightarrow> last_n n xs = xs"
  by (simp add: last_n_def)

lemma strip_port_code:
  "(if CHR '':'' \<in> set d then split_first CHR '':'' d else d) = strip_port d"
proof (cases "CHR '':'' \<in> set d")
  case True
  then show ?thesis by (simp add: strip_port_def split_first_takeWhile)
next
  case False
  then have eq: "strip_port d = d"
    by (auto simp: strip_port_def)
  show ?thesis using False by (simp only: eq if_False)
qed

lemma show_nat_digit: "n < 10 \<Longrightarrow> show_nat n = [digit_char n]"
  by (simp add: show_nat.simps)

lemma extract_base_domain_refines: "extract_base_domain h = registered_domain_spec h"
proof (cases "h = []")
  case True
  then show ?thesis
    by (simp add: extract_base_domain_def registered_domain_spec_def strip_port_def)
next
  case False
  define parts where "parts = split_on CHR ''.'' (strip_port h)"
  have ne: "parts \<noteq> []" by (simp add: parts_def split_on_nonempty)
  then have "length parts \<noteq> 0" by simp
  then consider "length parts = 1" | "length parts = 2" | "length parts > 2"
    by linarith
  then show ?thesis
  proof cases
    case 1
    then show ?thesis using False
      by (simp add: extract_base_domain_def registered_domain_spec_def strip_port_code
          Let_def parts_def[symmetric])
  next
    case 2
    then have "last_n 3 parts = last_n 2 parts" by (simp add: last_n_short)
    then show ?thesis using False 2
      by (simp add: extract_base_domain_def registered_domain_spec_def strip_port_code
          Let_def parts_def[symmetric])
  next
    case 3
    then have "parts ! (length parts - 2) = last (butlast parts)"
      using nth_last_butlast[of parts] by simp
    moreover have "parts ! (length parts - 1) = last parts"
      using ne by (rule nth_last)
    ultimately have "parts ! (length parts - 2) = last (butlast parts)"
      "parts ! (length parts - 1) = last parts"
      by blast+
    then show ?thesis using False 3
      by (simp add: extract_base_domain_def registered_domain_spec_def strip_port_code
          Let_def parts_def[symmetric])
  qed
qed

section \<open>The domain resolver\<close>

text \<open>
  Claim C5. For every hostname, \<^verbatim>\<open>extract_base_domain\<close> computes what the
  specification's resolver describes: the port is stripped, the rest is split on dots,
  and the answer is the last two labels, or the last three when the second-to-last label
  is one of co, com, org, net, edu, gov and the last one of uk, au, nz, jp; with fewer
  than two labels the hostname comes back as it is. In particular www.example.com gives
  example.com and shop.example.co.uk gives example.co.uk.
\<close>

theorem extract_base_domain_correct:
  "extract_base_domain h = registered_domain_spec h
   \<and> extract_base_domain ''www.example.com'' = ''example.com''
   \<and> extract_base_domain ''shop.example.co.uk'' = ''example.co.uk''
   \<and> extract_base_domain ''localhost'' = ''localhost''"
proof -
  have "extract_base_domain ''www.example.com'' = ''example.com''"
    by (simp add: extract_base_domain_def last_n_def second_level_labels_def
        country_labels_def)
  moreover have "extract_base_domain ''shop.example.co.uk'' = ''example.co.uk''"
    by (simp add: extract_base_domain_def last_n_def second_level_labels_def
        country_labels_def)
  moreover have "extract_base_domain ''localhost'' = ''localhost''"
    by (simp add: extract_base_domain_def)
  ultimately show ?thesis
    using extract_base_domain_refines by blast
qed

section \<open>The tracking-purpose classifier\<close>

text \<open>
  Claim C2. The claim asks for the vendor label Google Analytics on the cookie name
  \<^verbatim>\<open>_ga\<close>. The code answers Analytics for every cookie value: the keyword \<^verbatim>\<open>ga\<close> of
  the analytics set is a substring of the name, and the keyword sets are tried before
  the vendor tables, so the \<^verbatim>\<open>_ga\<close> entry of the Google Analytics table is never
  reached.
\<close>

theorem identify_tracking_purpose_ga:
  "identify_tracking_purpose ''_ga'' v = ''Analytics''"
  by (simp add: identify_tracking_purpose_def py_lower_def lower_char_def
      any_keyword_in_def analytics_keywords_def)

text \<open>
  Claim C8. The cookie value has no influence on the label: for one name, any two values
  give the same result.
\<close>

theorem identify_tracking_purpose_value_independent:
  "identify_tracking_purpose cookie_name v1 = identify_tracking_purpose cookie_name v2"
  by (simp add: identify_tracking_purpose_def)

section \<open>The age calculator\<close>

lemma calculate_cookie_age_num:
  "calculate_cookie_age f (ExpNum e) now =
     (if e = 0 then session_age
      else if e - now \<le> 0
      then \<lparr>seconds = Some (e - now), days = Some ((e - now) / 86400),
            readable = ''Expired'', is_session = False\<rparr>
      else \<lparr>seconds = Some (e - now), days = Some ((e - now) / 86400),
            readable = readable_age (e - now), is_session = False\<rparr>)"
  by (simp add: calculate_cookie_age_def Let_def)

text \<open>
  Claim C4. The claim asks that every numeric expiry with expiry - now <= 0, the expiry
  0 included, gives the record with is_session false and readable Expired, and that
  only an absent or non-numeric expiry gives the session-cookie record. The code does
  not do that at the expiry 0: the guard \<^verbatim>\<open>if not expiry_timestamp\<close> tests truthiness,
  the number 0 is falsy, and the function returns the session-cookie record before it
  computes any difference. With the clock at 100 the difference is -100, yet the result
  is the session record and not the Expired one. The comments of the function name only
  \<^verbatim>\<open>None\<close> or empty for the session case and ask for Expired when the expiry is in
  the past.
\<close>

theorem calculate_cookie_age_zero_expiry_is_session:
  "(0::rat) - 100 \<le> 0
   \<and> calculate_cookie_age no_float (ExpNum 0) 100 = session_age
   \<and> is_session (calculate_cookie_age no_float (ExpNum 0) 100)
   \<and> readable (calculate_cookie_age no_float (ExpNum 0) 100) \<noteq> ''Expired''"
  by (simp add: calculate_cookie_age_num session_age_def)

text \<open>
  Claim C7. The claim asks for the singular unit word exactly when the truncated count
  is 1. The code tests the untruncated quotient against 1, so an age of 1.5 days
  (129600 seconds) is rendered with the count 1 and the plural word.
\<close>

theorem calculate_cookie_age_one_and_a_half_days:
  "readable (calculate_cookie_age f (ExpNum 129600) 0) = ''1 days''"
proof -
  have fl: "\<lfloor>3 / 2 :: rat\<rfloor> = 1" by (simp add: floor_eq_iff)
  show ?thesis
    by (simp add: calculate_cookie_age_def readable_age_def plural_unit_def py_int_def
        show_int_def show_nat_digit digit_char_def Let_def fl)
qed

section \<open>The XSS scan\<close>

lemma sum_counts_bump:
  "map_of d k = Some e \<Longrightarrow> vd_count v = vd_count e + 1 \<Longrightarrow>
   sum_counts (dict_set k v d) = sum_counts d + 1"
  by (induction d) (auto simp: sum_counts_def)

lemma sum_counts_snoc: "sum_counts (d @ [(k, e)]) = sum_counts d + vd_count e"
  by (simp add: sum_counts_def)

lemma sum_counts_update:
  "sum_counts (vulnerable_domains (update_xss_stats st dm c n cd mp)) =
   sum_counts (vulnerable_domains st) + 1"
proof (cases "map_of (vulnerable_domains st) dm")
  case None
  define z where "z = \<lparr>vd_count = 0, vd_cookies = []\<rparr>"
  from None have m: "map_of (vulnerable_domains st @ [(dm, z)]) dm = Some z"
    by (simp add: map_add_def)
  show ?thesis using None m
    by (simp add: update_xss_stats_def Let_def dict_get_def get_or_def sum_counts_snoc
        sum_counts_bump[OF m] z_def[symmetric] del: map_of_append) (simp add: z_def)
next
  case (Some e)
  show ?thesis using Some
    by (simp add: update_xss_stats_def Let_def dict_get_def get_or_def
        sum_counts_bump[OF Some])
qed

lemma update_xss_stats_fields:
  "potentially_vulnerable_cookies (update_xss_stats st dm c n cd mp) =
     potentially_vulnerable_cookies st + 1"
  "length (xss_findings (update_xss_stats st dm c n cd mp)) = length (xss_findings st) + 1"
  "total_cookies_analyzed (update_xss_stats st dm c n cd mp) = total_cookies_analyzed st"
  by (simp_all add: update_xss_stats_def Let_def)

lemma xss_cookie_step_consistent:
  "xss_consistent st \<Longrightarrow> xss_consistent (xss_cookie_step search unq dm c st)"
  by (simp add: xss_cookie_step_def Let_def xss_consistent_def update_xss_stats_fields
      sum_counts_update)

lemma xss_cookies_consistent:
  "xss_consistent st \<Longrightarrow> xss_consistent (fold (xss_cookie_step search unq dm) cs st)"
  by (induction cs arbitrary: st) (simp_all add: xss_cookie_step_consistent)

lemma xss_file_step_consistent:
  "xss_consistent st \<Longrightarrow> xss_consistent (xss_file_step search unq d st)"
  by (simp add: xss_file_step_def process_cookies_for_xss_def Let_def xss_cookies_consistent)

lemma xss_files_consistent:
  "xss_consistent st \<Longrightarrow> xss_consistent (fold (xss_file_step search unq) ds st)"
  by (induction ds arbitrary: st) (simp_all add: xss_file_step_consistent)

text \<open>
  Claim C9. For every list of snapshots (and whatever the pattern matcher and the URL
  decoder answer), the scan result is consistent: potentially_vulnerable_cookies is the
  length of xss_findings, it is the sum of the count fields over vulnerable_domains, and
  it is at most total_cookies_analyzed.
\<close>

theorem analyze_xss_vulnerabilities_consistent:
  "potentially_vulnerable_cookies (analyze_xss_vulnerabilities search unq fs) =
     length (xss_findings (analyze_xss_vulnerabilities search unq fs))
   \<and> potentially_vulnerable_cookies (analyze_xss_vulnerabilities search unq fs) =
     sum_list (map (\<lambda>p. vd_count (snd p))
       (vulnerable_domains (analyze_xss_vulnerabilities search unq fs)))
   \<and> potentially_vulnerable_cookies (analyze_xss_vulnerabilities search unq fs)
     \<le> total_cookies_analyzed (analyze_xss_vulnerabilities search unq fs)"
proof -
  have "xss_consistent (analyze_xss_vulnerabilities search unq fs)"
  proof (cases "fs = []")
    case True
    then show ?thesis
      by (simp add: analyze_xss_vulnerabilities_def xss_consistent_def sum_counts_def)
  next
    case False
    have "xss_consistent initialize_xss_stats"
      by (simp add: initialize_xss_stats_def xss_consistent_def sum_counts_def)
    then show ?thesis using False
      by (simp add: analyze_xss_vulnerabilities_def xss_files_consistent)
  qed
  then show ?thesis
    by (simp add: xss_consistent_def sum_counts_def)
qed

section \<open>The aggregator's counters\<close>

lemma count_age_session_persistent:
  "session_cookies (count_age a st) + persistent_cookies (count_age a st) =
   session_cookies st + persistent_cookies st + 1"
  by (simp add: count_age_def Let_def split: option.splits)

lemma count_age_keeps:
  "third_party_cookies (count_age a st) = third_party_cookies st"
  "total_cookies (count_age a st) = total_cookies st"
  by (simp_all add: count_age_def Let_def split: option.splits)

lemma cookie_step_session_persistent:
  "session_cookies (cookie_step d m c st) + persistent_cookies (cookie_step d m c st)
   = session_cookies st + persistent_cookies st + (if has_age c then 1 else 0)"
  by (simp add: cookie_step_def Let_def has_age_def count_age_session_persistent
      split: option.splits)

lemma cookie_step_third_party:
  "third_party_cookies (cookie_step d m c st)
   = third_party_cookies st + (if suffix_third_party m c then 1 else 0)"
  by (simp add: cookie_step_def Let_def suffix_third_party_def count_age_keeps
      split: option.splits)

lemma cookie_step_total: "total_cookies (cookie_step d m c st) = total_cookies st"
  by (simp add: cookie_step_def Let_def count_age_keeps split: option.splits)

lemma cookies_fold_session_persistent:
  "session_cookies (fold (cookie_step d m) cs st)
     + persistent_cookies (fold (cookie_step d m) cs st)
   = session_cookies st + persistent_cookies st + length (filter has_age cs)"
  by (induction cs arbitrary: st) (simp_all add: cookie_step_session_persistent)

lemma cookies_fold_third_party:
  "third_party_cookies (fold (cookie_step d m) cs st)
   = third_party_cookies st + length (filter (suffix_third_party m) cs)"
  by (induction cs arbitrary: st) (simp_all add: cookie_step_third_party)

lemma cookies_fold_total: "total_cookies (fold (cookie_step d m) cs st) = total_cookies st"
  by (induction cs arbitrary: st) (simp_all add: cookie_step_total)

lemma storage_fold_keeps:
  "session_cookies (fold (storage_key_step k) ks st) = session_cookies st"
  "persistent_cookies (fold (storage_key_step k) ks st) = persistent_cookies st"
  "third_party_cookies (fold (storage_key_step k) ks st) = third_party_cookies st"
  "total_cookies (fold (storage_key_step k) ks st) = total_cookies st"
  by (induction ks arbitrary: st) (simp_all add: storage_key_step_def)

lemma file_step_session_persistent:
  "session_cookies (file_step data st) + persistent_cookies (file_step data st)
   = session_cookies st + persistent_cookies st + length (filter has_age (cookies_of data))"
  by (simp add: file_step_def Let_def storage_fold_keeps cookies_fold_session_persistent
      cookies_of_def)

lemma file_step_third_party:
  "third_party_cookies (file_step data st)
   = third_party_cookies st
     + length (filter (suffix_third_party (main_domain_of data)) (cookies_of data))"
  by (simp add: file_step_def Let_def storage_fold_keeps cookies_fold_third_party
      cookies_of_def)

lemma file_step_total: "total_cookies (file_step data st) = total_cookies st"
  by (simp add: file_step_def Let_def storage_fold_keeps cookies_fold_total)

lemma files_fold_session_persistent:
  "session_cookies (fold file_step fs st) + persistent_cookies (fold file_step fs st)
   = session_cookies st + persistent_cookies st
     + sum_list (map (\<lambda>data. length (filter has_age (cookies_of data))) fs)"
  by (induction fs arbitrary: st) (simp_all add: file_step_session_persistent)

lemma files_fold_third_party:
  "third_party_cookies (fold file_step fs st)
   = third_party_cookies st
     + sum_list (map (\<lambda>data. length (filter (suffix_third_party (main_domain_of data))
         (cookies_of data))) fs)"
  by (induction fs arbitrary: st) (simp_all add: file_step_third_party)

lemma files_fold_total: "total_cookies (fold file_step fs st) = total_cookies st"
  by (induction fs arbitrary: st) (simp_all add: file_step_total)

lemma finalize_keeps:
  "session_cookies (finalize_cookie_stats st) = session_cookies st"
  "persistent_cookies (finalize_cookie_stats st) = persistent_cookies st"
  "third_party_cookies (finalize_cookie_stats st) = third_party_cookies st"
  "total_cookies (finalize_cookie_stats st) = total_cookies st"
  by (simp_all add: finalize_cookie_stats_def Let_def)

lemma analyze_cookies_aged:
  "session_cookies (analyze_cookies fs) + persistent_cookies (analyze_cookies fs)
   = sum_list (map (\<lambda>data. length (filter has_age (cookies_of data))) fs)"
  by (simp add: analyze_cookies_def finalize_keeps files_fold_session_persistent
      initial_cookie_stats_def)

lemma analyze_cookies_suffix_count:
  "third_party_cookies (analyze_cookies fs)
   = sum_list (map (\<lambda>data. length (filter (suffix_third_party (main_domain_of data))
       (cookies_of data))) fs)"
  by (simp add: analyze_cookies_def finalize_keeps files_fold_third_party
      initial_cookie_stats_def)

lemma analyze_cookies_total:
  "total_cookies (analyze_cookies fs) = sum_list (map (\<lambda>data. length (cookies_of data)) fs)"
  by (simp add: analyze_cookies_def finalize_keeps files_fold_total initial_cookie_stats_def
      cookies_of_def)

lemma aged_le_all:
  "sum_list (map (\<lambda>data. length (filter has_age (cookies_of data))) fs)
   \<le> sum_list (map (\<lambda>data. length (cookies_of data)) fs)"
  by (induction fs) (simp_all add: add_mono)

lemma aged_eq_all:
  "list_all (\<lambda>data. list_all has_age (cookies_of data)) fs \<Longrightarrow>
   sum_list (map (\<lambda>data. length (filter has_age (cookies_of data))) fs)
   = sum_list (map (\<lambda>data. length (cookies_of data)) fs)"
  by (induction fs) (simp_all add: list_all_iff)

lemma netloc_example_com: "urlparse_netloc ''http://example.com/'' = ''example.com''"
  by (simp add: urlparse_netloc_def strip_scheme_def is_alpha_def is_scheme_char_def Let_def)

text \<open>
  Claim C1, as stated, fails on the raw collector format: a cookie record without an
  \<^verbatim>\<open>age\<close> key is counted in total_cookies and in neither session_cookies nor
  persistent_cookies.
\<close>

theorem analyze_cookies_raw_cookie_uncounted:
  "total_cookies (analyze_cookies raw_example) = 1
   \<and> session_cookies (analyze_cookies raw_example)
       + persistent_cookies (analyze_cookies raw_example) = 0"
  by (simp add: analyze_cookies_aged analyze_cookies_total raw_example_def cookies_of_def
      get_or_def has_age_def bare_cookie_def bare_snapshot_def)

text \<open>
  Claim C1, amended. For every list of snapshot records, session_cookies +
  persistent_cookies is the number of cookie records that carry a non-empty \<^verbatim>\<open>age\<close>
  dictionary; it is at most total_cookies, and it equals total_cookies when every cookie
  record carries one.
\<close>

theorem analyze_cookies_session_persistent:
  "session_cookies (analyze_cookies fs) + persistent_cookies (analyze_cookies fs)
     = sum_list (map (\<lambda>data. length (filter has_age (cookies_of data))) fs)
   \<and> session_cookies (analyze_cookies fs) + persistent_cookies (analyze_cookies fs)
     \<le> total_cookies (analyze_cookies fs)
   \<and> (list_all (\<lambda>data. list_all has_age (cookies_of data)) fs \<longrightarrow>
        session_cookies (analyze_cookies fs) + persistent_cookies (analyze_cookies fs)
        = total_cookies (analyze_cookies fs))"
  by (simp add: analyze_cookies_aged analyze_cookies_total aged_le_all aged_eq_all)

theorem analyze_cookies_session_persistent_witness:
  "list_all (\<lambda>data. list_all has_age (cookies_of data)) aged_example
   \<and> session_cookies (analyze_cookies aged_example)
       + persistent_cookies (analyze_cookies aged_example) = 2
   \<and> total_cookies (analyze_cookies aged_example) = 2"
proof -
  have all: "list_all (\<lambda>data. list_all has_age (cookies_of data)) aged_example"
    by (simp add: aged_example_def cookies_of_def get_or_def has_age_def bare_cookie_def
        bare_snapshot_def session_age_dict_def age_truthy_def)
  have "total_cookies (analyze_cookies aged_example) = 2"
    by (simp add: analyze_cookies_total aged_example_def cookies_of_def get_or_def
        bare_snapshot_def)
  with all analyze_cookies_session_persistent [of aged_example] show ?thesis
    by simp
qed

text \<open>
  Claim C3. The claim asks that a cookie with a non-empty domain is counted as
  third-party exactly when its registered domain differs from the page's. The code
  does not compare registered domains: it tests whether the cookie domain ends with
  the page's main domain (or the other way round), character by character and without
  regard to label boundaries. On the page example.com a cookie of the domain
  notexample.com has another registered domain, yet it is not counted, because the
  string notexample.com ends with example.com.
\<close>

theorem analyze_cookies_lookalike_not_counted:
  "third_party_cookies (analyze_cookies lookalike_example) = 0
   \<and> registered_domains_differ ''notexample.com'' (urlparse_netloc ''http://example.com/'')"
proof -
  have "third_party_cookies (analyze_cookies lookalike_example) = 0"
    by (simp add: analyze_cookies_suffix_count lookalike_example_def cookies_of_def get_or_def
        suffix_third_party_def bare_cookie_def bare_snapshot_def suffix_to_prefix
        main_domain_of_def netloc_example_com last_n_def Let_def)
  moreover have
    "registered_domains_differ ''notexample.com'' (urlparse_netloc ''http://example.com/'')"
    by (simp add: netloc_example_com registered_domains_differ_def strip_leading_dot_def
        extract_base_domain_def last_n_def second_level_labels_def country_labels_def)
  ultimately show ?thesis by simp
qed

section \<open>The domain-relationship graph\<close>

lemma tagged_cookie_step_skip:
  "registered_or ex (strip_leading_dot (get_or (ck_domain c) [])) = fp \<Longrightarrow>
   tagged_cookie_step ex fp c st = st"
  by (simp add: tagged_cookie_step_def strip_leading_dot_def Let_def)

lemma relationship_file_step_skip:
  assumes "snap_third_party_cookies data = Some (xs @ c # ys)" "xs @ ys \<noteq> []"
    "registered_or ex (strip_leading_dot (get_or (ck_domain c) [])) = first_party_of ex data"
  shows "relationship_file_step ex data st =
         relationship_file_step ex (data\<lparr>snap_third_party_cookies := Some (xs @ ys)\<rparr>) st"
  using assms
  by (simp add: relationship_file_step_def first_party_of_def Let_def get_or_def
      tagged_cookie_step_skip split: option.splits)

lemma relationship_file_step_alone:
  assumes "snap_third_party_cookies data = Some [c]"
    "registered_or ex (strip_leading_dot (get_or (ck_domain c) [])) = first_party_of ex data"
  shows "relationship_file_step ex data st =
         relationship_file_step ex
           (data\<lparr>snap_cookies := None, snap_third_party_cookies := None\<rparr>) st"
  using assms
  by (simp add: relationship_file_step_def first_party_of_def Let_def get_or_def
      tagged_cookie_step_skip split: option.splits)

lemma set_dict_set: "set (dict_set k v d) \<subseteq> insert (k, v) (set d)"
  by (induction d) auto

lemma distinct_set_add: "distinct xs \<Longrightarrow> distinct (set_add x xs)"
  by (simp add: set_add_def)

lemma dict_get_cases: "dict_get d k dflt = dflt \<or> (k, dict_get d k dflt) \<in> set d"
  by (auto simp: dict_get_def get_or_def split: option.splits dest: map_of_SomeD)

lemma note_third_party_ok: "rel_ok rel \<Longrightarrow> rel_ok (note_third_party tp n p rel)"
proof -
  assume ok: "rel_ok rel"
  define tps where "tps = (case map_of (third_parties rel) tp of
                   None \<Rightarrow> third_parties rel @ [(tp, empty_entry)]
                 | Some e \<Rightarrow> third_parties rel)"
  have tps_ok: "\<forall>x\<in>set tps. distinct (tp_purposes (snd x))"
    using ok by (auto simp: tps_def rel_ok_def empty_entry_def split: option.splits)
  have "distinct (tp_purposes (dict_get tps tp empty_entry))"
    using dict_get_cases[of tps tp empty_entry] tps_ok by (auto simp: empty_entry_def)
  then have e_ok: "distinct (case p of None \<Rightarrow> tp_purposes (dict_get tps tp empty_entry)
                 | Some q \<Rightarrow> set_add q (tp_purposes (dict_get tps tp empty_entry)))"
    by (simp add: distinct_set_add split: option.splits)
  show ?thesis
    unfolding note_third_party_def Let_def tps_def[symmetric] rel_ok_def
    using set_dict_set[of tp _ tps] tps_ok e_ok by fastforce
qed

lemma relationships_update_ok:
  "stats_ok st \<Longrightarrow> rel_ok r \<Longrightarrow>
   stats_ok (st\<lparr>domain_relationships := dict_set k r (domain_relationships st)\<rparr>)"
  using set_dict_set[of k r "domain_relationships st"] by (fastforce simp: stats_ok_def)

lemma dict_get_rel_ok:
  "stats_ok st \<Longrightarrow> rel_ok (dict_get (domain_relationships st) k empty_relationship)"
proof -
  assume ok: "stats_ok st"
  let ?r = "dict_get (domain_relationships st) k empty_relationship"
  from dict_get_cases[of "domain_relationships st" k empty_relationship]
  show "rel_ok ?r"
  proof
    assume "?r = empty_relationship"
    then show ?thesis by (simp add: rel_ok_def empty_relationship_def)
  next
    assume "(k, ?r) \<in> set (domain_relationships st)"
    with ok have "rel_ok (snd (k, ?r))" unfolding stats_ok_def by blast
    then show ?thesis by simp
  qed
qed

lemma tagged_cookie_step_ok: "stats_ok st \<Longrightarrow> stats_ok (tagged_cookie_step ex fp c st)"
  using relationships_update_ok[of st
      "note_third_party _ _ _ (dict_get (domain_relationships st) fp empty_relationship)" fp]
  by (auto simp: tagged_cookie_step_def Let_def stats_ok_def note_third_party_ok
      dict_get_rel_ok)

lemma fallback_cookie_step_ok:
  "stats_ok st \<Longrightarrow> stats_ok (fallback_cookie_step ex fd fp c st)"
  using relationships_update_ok[of st
      "note_third_party _ _ _ (dict_get (domain_relationships st) fp empty_relationship)" fp]
  by (auto simp: fallback_cookie_step_def Let_def stats_ok_def note_third_party_ok
      dict_get_rel_ok)

lemma tagged_fold_ok: "stats_ok st \<Longrightarrow> stats_ok (fold (tagged_cookie_step ex fp) cs st)"
  by (induction cs arbitrary: st) (simp_all add: tagged_cookie_step_ok)

lemma fallback_fold_ok:
  "stats_ok st \<Longrightarrow> stats_ok (fold (fallback_cookie_step ex fd fp) cs st)"
  by (induction cs arbitrary: st) (simp_all add: fallback_cookie_step_ok)

lemma new_first_party_ok:
  "stats_ok st \<Longrightarrow>
   stats_ok (st\<lparr>domain_relationships :=
     domain_relationships st @ [(k, empty_relationship)]\<rparr>)"
  by (auto simp: stats_ok_def rel_ok_def empty_relationship_def)

lemma relationship_file_step_ok:
  "stats_ok st \<Longrightarrow> stats_ok (relationship_file_step ex data st)"
  by (simp add: relationship_file_step_def Let_def tagged_fold_ok fallback_fold_ok
      new_first_party_ok split: option.splits)

lemma relationship_files_ok:
  "stats_ok st \<Longrightarrow> stats_ok (fold (relationship_file_step ex) fs st)"
  by (induction fs arbitrary: st) (simp_all add: relationship_file_step_ok)

lemma all_purposes_materialize:
  "all_purposes (materialize_purposes ord st) = map ord (all_purposes st)"
  by (simp add: all_purposes_def materialize_purposes_def map_concat comp_def)

lemma all_purposes_top_trackers: "all_purposes (st\<lparr>top_trackers := t\<rparr>) = all_purposes st"
  by (simp add: all_purposes_def)

lemma stats_ok_all_purposes: "stats_ok st \<Longrightarrow> list_all distinct (all_purposes st)"
  by (auto simp: stats_ok_def rel_ok_def all_purposes_def list_all_iff)

lemma all_purposes_analyze:
  "all_purposes (analyze_domain_relationships ex ord fs) =
   map ord (all_purposes (fold (relationship_file_step ex) fs empty_relationship_stats))"
  by (simp add: analyze_domain_relationships_def Let_def all_purposes_top_trackers
      all_purposes_materialize)
    (simp add: all_purposes_def empty_relationship_stats_def)

text \<open>
  Claim C6, as stated, fails. The sets of purposes are turned into lists by
  \<^verbatim>\<open>list(...)\<close>, not by \<^verbatim>\<open>sorted(...)\<close>, so a field comes out in the set's own
  enumeration order. When that order is the insertion order, two cookies of tracker.net
  with the purposes Unknown and then Analytics give the list Unknown, Analytics, which
  is not sorted.
\<close>

theorem analyze_domain_relationships_purposes_unsorted:
  "all_purposes (analyze_domain_relationships one_label_extract insertion_order purposes_example)
     = [[''Unknown'', ''Analytics'']]
   \<and> \<not> sorted [''Unknown'', ''Analytics'']"
  by code_simp

text \<open>
  Claim C6, amended. For every input to the domain-relationship analysis, every
  purposes field in the returned graph is the enumeration, made at the result boundary,
  of the set accumulated for that third-party domain: the accumulated sets hold no
  duplicates, each field is the set's enumeration order applied to one of them, and so
  every field is a duplicate-free list whenever enumerating a set repeats no element.
  The list is in the set's enumeration order, not in sorted order.
\<close>

theorem analyze_domain_relationships_purposes:
  "all_purposes (analyze_domain_relationships ex ord fs) =
     map ord (all_purposes (fold (relationship_file_step ex) fs empty_relationship_stats))
   \<and> list_all distinct
       (all_purposes (fold (relationship_file_step ex) fs empty_relationship_stats))
   \<and> ((\<forall>xs. distinct xs \<longrightarrow> distinct (ord xs)) \<longrightarrow>
        list_all distinct (all_purposes (analyze_domain_relationships ex ord fs)))"
proof -
  have "stats_ok empty_relationship_stats"
    by (simp add: stats_ok_def empty_relationship_stats_def)
  then have "stats_ok (fold (relationship_file_step ex) fs empty_relationship_stats)"
    by (rule relationship_files_ok)
  then have d: "list_all distinct
      (all_purposes (fold (relationship_file_step ex) fs empty_relationship_stats))"
    by (rule stats_ok_all_purposes)
  then have "(\<forall>xs. distinct xs \<longrightarrow> distinct (ord xs)) \<longrightarrow>
      list_all distinct (map ord
        (all_purposes (fold (relationship_file_step ex) fs empty_relationship_stats)))"
    by (simp add: list_all_iff)
  with d show ?thesis
    by (simp add: all_purposes_analyze)
qed

theorem analyze_domain_relationships_purposes_witness:
  "list_all distinct
     (all_purposes
       (analyze_domain_relationships one_label_extract insertion_order purposes_example))"
proof -
  have enum: "\<forall>xs::string list. distinct xs \<longrightarrow> distinct (insertion_order xs)"
    by (simp add: insertion_order_def)
  from analyze_domain_relationships_purposes
    [of one_label_extract insertion_order purposes_example] enum
  show ?thesis by blast
qed

text \<open>
  Claim C10. In a snapshot's pre-tagged third_party_cookies list, an entry whose
  registered domain equals the page's registered domain is skipped: the step for that
  entry leaves the statistics as they are, and the loop over the list gives the same
  statistics as the loop over the list without the entry. So the whole result (graph,
  total_third_party_cookies, third_party_domains, third_party_purposes and
  top_trackers) is the one for the input without the entry, where other entries remain
  in the list; and where the entry is the only one, it is the result for the same page
  with no cookies at all.
\<close>

theorem tagged_same_party_skipped:
  "registered_or ex (strip_leading_dot (get_or (ck_domain c) [])) = first_party_of ex data
   \<longrightarrow>
     tagged_cookie_step ex (first_party_of ex data) c st = st
     \<and> fold (tagged_cookie_step ex (first_party_of ex data)) (xs @ c # ys) st
         = fold (tagged_cookie_step ex (first_party_of ex data)) (xs @ ys) st
     \<and> (snap_third_party_cookies data = Some (xs @ c # ys) \<and> xs @ ys \<noteq> [] \<longrightarrow>
          analyze_domain_relationships ex ord (pre @ data # post) =
          analyze_domain_relationships ex ord
            (pre @ data\<lparr>snap_third_party_cookies := Some (xs @ ys)\<rparr> # post))
     \<and> (snap_third_party_cookies data = Some [c] \<longrightarrow>
          analyze_domain_relationships ex ord (pre @ data # post) =
          analyze_domain_relationships ex ord
            (pre @ data\<lparr>snap_cookies := None, snap_third_party_cookies := None\<rparr> # post))"
proof (intro impI conjI)
  assume same:
    "registered_or ex (strip_leading_dot (get_or (ck_domain c) [])) = first_party_of ex data"
  then show "tagged_cookie_step ex (first_party_of ex data) c st = st"
    by (rule tagged_cookie_step_skip)
  from same
  show "fold (tagged_cookie_step ex (first_party_of ex data)) (xs @ c # ys) st
        = fold (tagged_cookie_step ex (first_party_of ex data)) (xs @ ys) st"
    by (simp add: tagged_cookie_step_skip)
  {
    assume "snap_third_party_cookies data = Some (xs @ c # ys) \<and> xs @ ys \<noteq> []"
    then have "relationship_file_step ex data =
        relationship_file_step ex (data\<lparr>snap_third_party_cookies := Some (xs @ ys)\<rparr>)"
      using same relationship_file_step_skip[of data xs c ys ex] by auto
    then show "analyze_domain_relationships ex ord (pre @ data # post) =
        analyze_domain_relationships ex ord
          (pre @ data\<lparr>snap_third_party_cookies := Some (xs @ ys)\<rparr> # post)"
      by (simp add: analyze_domain_relationships_def)
  }
  {
    assume "snap_third_party_cookies data = Some [c]"
    then have "relationship_file_step ex data =
        relationship_file_step ex
          (data\<lparr>snap_cookies := None, snap_third_party_cookies := None\<rparr>)"
      using same relationship_file_step_alone[of data c ex] by auto
    then show "analyze_domain_relationships ex ord (pre @ data # post) =
        analyze_domain_relationships ex ord
          (pre @ data\<lparr>snap_cookies := None, snap_third_party_cookies := None\<rparr> # post)"
      by (simp add: analyze_domain_relationships_def)
  }
qed

theorem tagged_same_party_skipped_witness:
  "registered_or one_label_extract
     (strip_leading_dot (get_or (ck_domain same_party_cookie) []))
     = first_party_of one_label_extract same_party_snapshot
   \<and> snap_third_party_cookies same_party_snapshot
       = Some ([] @ same_party_cookie # [tracker_cookie])
   \<and> [] @ [tracker_cookie] \<noteq> []
   \<and> analyze_domain_relationships one_label_extract insertion_order [same_party_snapshot] =
     analyze_domain_relationships one_label_extract insertion_order
       [same_party_snapshot\<lparr>snap_third_party_cookies := Some [tracker_cookie]\<rparr>]
   \<and> third_party_domains
       (analyze_domain_relationships one_label_extract insertion_order [same_party_snapshot])
     = [(''tracker.net'', 1)]"
proof -
  have same: "registered_or one_label_extract
     (strip_leading_dot (get_or (ck_domain same_party_cookie) []))
     = first_party_of one_label_extract same_party_snapshot"
    by code_simp
  have tagged: "snap_third_party_cookies same_party_snapshot
       = Some ([] @ same_party_cookie # [tracker_cookie])"
    by (simp add: same_party_snapshot_def bare_snapshot_def)
  have counts: "third_party_domains
       (analyze_domain_relationships one_label_extract insertion_order [same_party_snapshot])
     = [(''tracker.net'', 1)]"
    by code_simp
  from same tagged counts
    tagged_same_party_skipped [of one_label_extract same_party_cookie same_party_snapshot
      _ "[]" "[tracker_cookie]" insertion_order "[]" "[]"]
  show ?thesis by simp
qed

end
